theory Spec2Isabelle
  imports Complex_Main
begin

section \<open>Python values and string helpers\<close>

text \<open>
  Strings are byte lists; \<open>str.lower\<close>, \<open>str.strip\<close> and the substring test are
  modelled on ASCII, which covers every literal the program compares against.
\<close>

definition py_lower_char :: "char \<Rightarrow> char" where
  "py_lower_char c =
     (case map_of (zip ''ABCDEFGHIJKLMNOPQRSTUVWXYZ'' ''abcdefghijklmnopqrstuvwxyz'') c of
        Some d \<Rightarrow> d
      | None \<Rightarrow> c)"

definition py_lower :: "string \<Rightarrow> string" where
  "py_lower s = map py_lower_char s"

fun startswith :: "string \<Rightarrow> string \<Rightarrow> bool" where
  "startswith s [] = True"
| "startswith [] (p # ps) = False"
| "startswith (c # cs) (p # ps) = (c = p \<and> startswith cs ps)"

definition is_space :: "char \<Rightarrow> bool" where
  "is_space c \<longleftrightarrow>
     c \<in> set [CHR '' '', CHR 0x09, CHR 0x0A, CHR 0x0B, CHR 0x0C, CHR 0x0D,
               CHR 0x1C, CHR 0x1D, CHR 0x1E, CHR 0x1F]"

definition py_strip :: "string \<Rightarrow> string" where
  "py_strip s = rev (dropWhile is_space (rev (dropWhile is_space s)))"


text \<open>\<open>needle in haystack\<close> on strings.\<close>

fun py_in :: "string \<Rightarrow> string \<Rightarrow> bool" where
  "py_in needle [] = (needle = [])"
| "py_in needle (c # cs) = (startswith (c # cs) needle \<or> py_in needle cs)"

subsection \<open>Values of the dynamically typed job configuration\<close>

text \<open>
  A job configuration is a \<open>Dict[str, Any]\<close>. Its scalar values are modelled by
  \<open>pyval\<close>; a Python \<open>float\<close> is modelled by the rational it denotes (finite values,
  exact arithmetic).
\<close>

datatype pyval = PNone | PBool bool | PInt int | PFloat rat | PStr string

fun truthy :: "pyval \<Rightarrow> bool" where
  "truthy PNone = False"
| "truthy (PBool b) = b"
| "truthy (PInt i) = (i \<noteq> 0)"
| "truthy (PFloat r) = (r \<noteq> 0)"
| "truthy (PStr s) = (s \<noteq> [])"

type_synonym config = "string \<Rightarrow> pyval option"

text \<open>\<open>config.get(key)\<close> and \<open>config.get(key, default)\<close>.\<close>

definition cfg_get :: "config \<Rightarrow> string \<Rightarrow> pyval" where
  "cfg_get config k = (case config k of None \<Rightarrow> PNone | Some v \<Rightarrow> v)"

definition cfg_get_default :: "config \<Rightarrow> string \<Rightarrow> pyval \<Rightarrow> pyval" where
  "cfg_get_default config k d = (case config k of None \<Rightarrow> d | Some v \<Rightarrow> v)"

datatype py_error = TypeError | ValueError | AttributeError | OverflowError

subsection \<open>Numbers and their text\<close>

definition digit_val :: "char \<Rightarrow> nat option" where
  "digit_val c = map_of (zip ''0123456789'' [0, 1, 2, 3, 4, 5, 6, 7, 8, 9]) c"

text \<open>Decimal digits in which single underscores may separate digits, as \<open>int\<close> and
  \<open>float\<close> accept them.\<close>

fun digits_rest :: "nat \<Rightarrow> string \<Rightarrow> nat option" where
  "digits_rest acc [] = Some acc"
| "digits_rest acc [c] =
     (case digit_val c of Some v \<Rightarrow> Some (acc * 10 + v) | None \<Rightarrow> None)"
| "digits_rest acc (c # d # ds) =
     (if c = CHR ''_''
      then (case digit_val d of Some v \<Rightarrow> digits_rest (acc * 10 + v) ds | None \<Rightarrow> None)
      else (case digit_val c of Some v \<Rightarrow> digits_rest (acc * 10 + v) (d # ds) | None \<Rightarrow> None))"

definition parse_digits :: "string \<Rightarrow> nat option" where
  "parse_digits s =
     (case s of
        [] \<Rightarrow> None
      | c # cs \<Rightarrow> (case digit_val c of Some v \<Rightarrow> digits_rest v cs | None \<Rightarrow> None))"

text \<open>An optional sign in front of the rest.\<close>

definition split_sign :: "string \<Rightarrow> bool \<times> string" where
  "split_sign s =
     (case s of
        c # cs \<Rightarrow> if c = CHR ''-'' then (True, cs) else if c = CHR ''+'' then (False, cs)
                  else (False, s)
      | [] \<Rightarrow> (False, s))"

text \<open>\<open>int(s)\<close> for a string: \<open>None\<close> stands for \<open>ValueError\<close>.\<close>

definition int_of_string :: "string \<Rightarrow> int option" where
  "int_of_string s =
     (let (neg, body) = split_sign (py_strip s) in
      case parse_digits body of
        None \<Rightarrow> None
      | Some n \<Rightarrow> Some (if neg then - int n else int n))"

text \<open>\<open>int(x)\<close> of a float truncates towards zero.\<close>

definition py_trunc :: "rat \<Rightarrow> int" where
  "py_trunc r = (if 0 \<le> r then \<lfloor>r\<rfloor> else \<lceil>r\<rceil>)"

fun py_int :: "pyval \<Rightarrow> py_error + int" where
  "py_int PNone = Inl TypeError"
| "py_int (PBool b) = Inr (if b then 1 else 0)"
| "py_int (PInt i) = Inr i"
| "py_int (PFloat r) = Inr (py_trunc r)"
| "py_int (PStr s) = (case int_of_string s of None \<Rightarrow> Inl ValueError | Some i \<Rightarrow> Inr i)"

text \<open>\<open>round(x)\<close> of a float: to the nearest integer, ties to the even one.\<close>

definition py_round :: "rat \<Rightarrow> int" where
  "py_round r =
     (let f = \<lfloor>r\<rfloor>; d = r - of_int f in
      if d < 1 / 2 then f
      else if 1 / 2 < d then f + 1
      else if even f then f else f + 1)"

text \<open>
  \<open>float(s)\<close> for a string: an optional sign, then \<open>inf\<close>, \<open>infinity\<close> or \<open>nan\<close>
  in any case, or a decimal number with an optional fraction and an optional exponent.
  The two places that call \<open>float\<close> on a configuration value pass the result straight
  into \<open>int\<close> or \<open>round\<close>, which raise \<open>OverflowError\<close> on an infinity and
  \<open>ValueError\<close> on a NaN; the model raises these at the conversion already.
\<close>

definition split_at_char :: "char \<Rightarrow> string \<Rightarrow> string \<times> string option" where
  "split_at_char c s =
     (let a = takeWhile (\<lambda>x. x \<noteq> c) s; b = dropWhile (\<lambda>x. x \<noteq> c) s
      in (a, if b = [] then None else Some (tl b)))"

definition parse_mantissa :: "string \<Rightarrow> rat option" where
  "parse_mantissa m =
     (case split_at_char CHR ''.'' m of
        (ip, None) \<Rightarrow> map_option of_nat (parse_digits ip)
      | (ip, Some fp) \<Rightarrow>
          if ip = [] then map_option (\<lambda>n. of_nat n / 10 ^ length (filter (\<lambda>x. x \<noteq> CHR ''_'') fp))
                            (parse_digits fp)
          else if fp = [] then map_option of_nat (parse_digits ip)
          else (case (parse_digits ip, parse_digits fp) of
                  (Some i, Some f) \<Rightarrow>
                    Some (of_nat i + of_nat f / 10 ^ length (filter (\<lambda>x. x \<noteq> CHR ''_'') fp))
                | _ \<Rightarrow> None))"

definition parse_exponent :: "string \<Rightarrow> int option" where
  "parse_exponent e =
     (let (neg, body) = split_sign e in
      map_option (\<lambda>n. if neg then - int n else int n) (parse_digits body))"

definition float_of_string :: "string \<Rightarrow> py_error + rat" where
  "float_of_string s =
     (let (neg, body) = split_sign (py_lower (py_strip s)) in
      if body = ''inf'' \<or> body = ''infinity'' then Inl OverflowError
      else if body = ''nan'' then Inl ValueError
      else
        let (m, e) = split_at_char CHR ''e'' body;
            ex = (case e of None \<Rightarrow> Some 0 | Some es \<Rightarrow> parse_exponent es)
        in (case (parse_mantissa m, ex) of
              (Some r, Some k) \<Rightarrow>
                Inr ((if neg then - r else r) * (if 0 \<le> k then 10 ^ nat k else 1 / 10 ^ nat (- k)))
            | _ \<Rightarrow> Inl ValueError))"

fun py_float :: "pyval \<Rightarrow> py_error + rat" where
  "py_float PNone = Inl TypeError"
| "py_float (PBool b) = Inr (if b then 1 else 0)"
| "py_float (PInt i) = Inr (of_int i)"
| "py_float (PFloat r) = Inr r"
| "py_float (PStr s) = float_of_string s"

definition digit_char :: "nat \<Rightarrow> char" where
  "digit_char n = ''0123456789'' ! n"

function str_of_nat :: "nat \<Rightarrow> string" where
  "str_of_nat n = (if n < 10 then [digit_char n] else str_of_nat (n div 10) @ [digit_char (n mod 10)])"
  by pat_completeness auto
termination
  by (relation "measure id") auto

definition str_of_int :: "int \<Rightarrow> string" where
  "str_of_int i = (if i < 0 then CHR ''-'' # str_of_nat (nat (- i)) else str_of_nat (nat i))"

text \<open>
  A command-line argument. \<open>str(x)\<close> of a float is its shortest round-trip decimal,
  which the model does not expand: \<open>FloatRepr r\<close> stands for that text.
\<close>

datatype arg = Arg string | FloatRepr rat

fun py_str :: "pyval \<Rightarrow> arg" where
  "py_str PNone = Arg ''None''"
| "py_str (PBool b) = Arg (if b then ''True'' else ''False'')"
| "py_str (PInt i) = Arg (str_of_int i)"
| "py_str (PFloat r) = FloatRepr r"
| "py_str (PStr s) = Arg s"

text \<open>\<open>(x or default).lower()\<close>: a truthy value that is not a string has no \<open>lower\<close>.\<close>

definition or_lower :: "pyval \<Rightarrow> string \<Rightarrow> py_error + string" where
  "or_lower x d =
     (if \<not> truthy x then Inr (py_lower d)
      else case x of PStr s \<Rightarrow> Inr (py_lower s) | _ \<Rightarrow> Inl AttributeError)"

section \<open>format\_compatibility.py\<close>

record FormatInfo =
  name :: string
  extension :: string
  type :: string
  supported_video_codecs :: "string list"
  supported_audio_codecs :: "string list"
  container_features :: "string list"

text \<open>\<open>FormatCompatibility._initialize_formats\<close>: the dictionary, in source order.\<close>

definition initialize_formats :: "(string \<times> FormatInfo) list" where
  "initialize_formats =
   [(''mp4'', \<lparr>name = ''MP4'', extension = ''mp4'', type = ''video'',
       supported_video_codecs = [''h264'', ''h265''],
       supported_audio_codecs = [''aac'', ''alac''],
       container_features = [''chapters'', ''subtitles'', ''metadata'']\<rparr>),
    (''mkv'', \<lparr>name = ''Matroska'', extension = ''mkv'', type = ''video'',
       supported_video_codecs = [''h264'', ''h265'', ''vp9'', ''av1'', ''mpeg4'', ''ffv1''],
       supported_audio_codecs = [''aac'', ''mp3'', ''ac3'', ''flac'', ''opus'', ''vorbis'', ''dts''],
       container_features = [''chapters'', ''subtitles'', ''metadata'', ''multiple_audio'',
         ''multiple_subtitles'']\<rparr>),
    (''webm'', \<lparr>name = ''WebM'', extension = ''webm'', type = ''video'',
       supported_video_codecs = [''vp8'', ''vp9'', ''av1''],
       supported_audio_codecs = [''vorbis'', ''opus''],
       container_features = [''subtitles'', ''metadata'']\<rparr>),
    (''avi'', \<lparr>name = ''AVI'', extension = ''avi'', type = ''video'',
       supported_video_codecs = [''mpeg4'', ''mjpeg''],
       supported_audio_codecs = [''mp3'', ''ac3'', ''pcm''],
       container_features = [''metadata'']\<rparr>),
    (''mov'', \<lparr>name = ''QuickTime'', extension = ''mov'', type = ''video'',
       supported_video_codecs = [''h264'', ''h265'', ''prores''],
       supported_audio_codecs = [''aac'', ''alac'', ''pcm''],
       container_features = [''chapters'', ''metadata'']\<rparr>),
    (''flv'', \<lparr>name = ''Flash Video'', extension = ''flv'', type = ''video'',
       supported_video_codecs = [''h264'', ''flv1''],
       supported_audio_codecs = [''aac'', ''mp3''],
       container_features = [''metadata'']\<rparr>),
    (''mp3'', \<lparr>name = ''MP3 Audio'', extension = ''mp3'', type = ''audio'',
       supported_video_codecs = [],
       supported_audio_codecs = [''mp3''],
       container_features = [''metadata'', ''id3tags'']\<rparr>),
    (''aac'', \<lparr>name = ''AAC Audio'', extension = ''aac'', type = ''audio'',
       supported_video_codecs = [],
       supported_audio_codecs = [''aac''],
       container_features = [''metadata'']\<rparr>),
    (''flac'', \<lparr>name = ''FLAC Lossless'', extension = ''flac'', type = ''audio'',
       supported_video_codecs = [],
       supported_audio_codecs = [''flac''],
       container_features = [''metadata'', ''lossless'']\<rparr>),
    (''wav'', \<lparr>name = ''WAV Audio'', extension = ''wav'', type = ''audio'',
       supported_video_codecs = [],
       supported_audio_codecs = [''pcm''],
       container_features = [''lossless'']\<rparr>),
    (''ogg'', \<lparr>name = ''Ogg Vorbis'', extension = ''ogg'', type = ''audio'',
       supported_video_codecs = [],
       supported_audio_codecs = [''vorbis'', ''opus''],
       container_features = [''metadata'']\<rparr>),
    (''opus'', \<lparr>name = ''Opus Audio'', extension = ''opus'', type = ''audio'',
       supported_video_codecs = [],
       supported_audio_codecs = [''opus''],
       container_features = [''metadata'']\<rparr>),
    (''m4a'', \<lparr>name = ''M4A Audio'', extension = ''m4a'', type = ''audio'',
       supported_video_codecs = [],
       supported_audio_codecs = [''aac'', ''alac''],
       container_features = [''metadata'']\<rparr>)]"

text \<open>\<open>self.formats.get(format_name)\<close>; a \<open>FormatInfo\<close> object is always truthy, so
  \<open>not fmt\<close> holds exactly for \<open>None\<close>.\<close>

definition get_format_info :: "string \<Rightarrow> FormatInfo option" where
  "get_format_info format_name = map_of initialize_formats format_name"

text \<open>\<open>FormatCompatibility.get_fallback_codec\<close> (format\_compatibility.py, lines 245--259).
  \<open>fmt.supported_video_codecs[0]\<close> is only read behind the non-emptiness test, so the
  head is taken by pattern matching on the non-empty list.\<close>

definition get_fallback_codec :: "string \<Rightarrow> string \<Rightarrow> string \<Rightarrow> string \<times> string" where
  "get_fallback_codec format_name requested_video_codec requested_audio_codec =
     (case get_format_info format_name of
        None \<Rightarrow> (''libx264'', ''aac'')
      | Some fmt \<Rightarrow>
          (let video_codec =
                 (case supported_video_codecs fmt of
                    v0 # _ \<Rightarrow>
                      if requested_video_codec \<notin> set (supported_video_codecs fmt)
                      then v0 else requested_video_codec
                  | [] \<Rightarrow> requested_video_codec);
               audio_codec =
                 (case supported_audio_codecs fmt of
                    a0 # _ \<Rightarrow>
                      if requested_audio_codec \<notin> set (supported_audio_codecs fmt)
                      then a0 else requested_audio_codec
                  | [] \<Rightarrow> requested_audio_codec)
           in (video_codec, audio_codec)))"

text \<open>\<open>get_compatible_video_codecs\<close> and \<open>get_compatible_audio_codecs\<close>
  (lines 233--243).\<close>

definition get_compatible_video_codecs :: "string \<Rightarrow> string list" where
  "get_compatible_video_codecs format_name =
     (case get_format_info format_name of None \<Rightarrow> [] | Some fmt \<Rightarrow> supported_video_codecs fmt)"

definition get_compatible_audio_codecs :: "string \<Rightarrow> string list" where
  "get_compatible_audio_codecs format_name =
     (case get_format_info format_name of None \<Rightarrow> [] | Some fmt \<Rightarrow> supported_audio_codecs fmt)"

section \<open>conversion\_engine.py: codec normalisation\<close>

text \<open>\<open>ConversionWorker._normalize_video_codec\<close> (lines 423--454). The argument is
  \<open>Optional[str]\<close>: \<open>None\<close> and the empty string are the falsy values.\<close>

definition video_codec_mapping :: "(string \<times> string) list" where
  "video_codec_mapping =
   [(''libx264'', ''h264''), (''x264'', ''h264''), (''libx265'', ''h265''),
    (''x265'', ''h265''), (''hevc'', ''h265''), (''libvpx-vp9'', ''vp9''),
    (''libvpx'', ''vp8''), (''vp10'', ''av1''), (''libaom-av1'', ''av1''),
    (''libaom'', ''av1''), (''libxvid'', ''mpeg4''), (''xvid'', ''mpeg4''),
    (''ffvhuff'', ''ffv1'')]"

definition normalize_video_codec :: "string option \<Rightarrow> string" where
  "normalize_video_codec codec =
     (case codec of
        None \<Rightarrow> ''h264''
      | Some c \<Rightarrow>
          if c = [] then ''h264''
          else
            let codec_lower = py_lower c in
            (case map_of video_codec_mapping codec_lower of
               Some m \<Rightarrow> m
             | None \<Rightarrow>
                 let l1 = (if startswith codec_lower ''lib'' then drop 3 codec_lower
                           else codec_lower);
                     l2 = (if startswith l1 ''x'' \<and> l1 \<noteq> ''xvid'' then drop 1 l1 else l1)
                 in if l2 = ''vpx-vp9'' then ''vp9''
                    else if l2 = ''vpx'' then ''vp8''
                    else if l2 = ''xvid'' then ''mpeg4''
                    else l2))"

section \<open>hardware\_detector.py\<close>

datatype AccelerationType = CUDA | VULKAN | OPENCL | VIDEOTOOLBOX | QSV | DXVA2 | D3D11VA | NONE

record HardwareDetector =
  ffmpeg_path :: string
  available_hwaccels :: "string list"
  available_encoders :: "(string \<times> string list) list"
  detected_gpu :: "string option"
  best_acceleration :: AccelerationType

text \<open>\<open>HardwareDetector.get_encoder\<close> (hardware\_detector.py, lines 195--232). The chain of
  \<open>if\<close>/\<open>elif\<close> falls through to the \<open>vaapi\<close> test whenever the selected branch does
  not return.\<close>

definition get_encoder :: "HardwareDetector \<Rightarrow> string \<Rightarrow> string \<Rightarrow> string" where
  "get_encoder hw codec_name fallback =
     (if best_acceleration hw = NONE then fallback
      else case map_of (available_encoders hw) codec_name of
        None \<Rightarrow> fallback
      | Some hw_encoders \<Rightarrow>
          let vaapi = (if ''vaapi'' \<in> set hw_encoders then codec_name @ ''_vaapi'' else fallback) in
          if best_acceleration hw = CUDA \<and> ''nvenc'' \<in> set hw_encoders
            then codec_name @ ''_nvenc''
          else if best_acceleration hw = QSV \<and> ''qsv'' \<in> set hw_encoders
            then codec_name @ ''_qsv''
          else if best_acceleration hw = VIDEOTOOLBOX \<and> ''videotoolbox'' \<in> set hw_encoders
            then codec_name @ ''_videotoolbox''
          else if best_acceleration hw \<in> {D3D11VA, DXVA2}
            then (if ''amf'' \<in> set hw_encoders then codec_name @ ''_amf''
                  else if ''qsv'' \<in> set hw_encoders then codec_name @ ''_qsv''
                  else if ''nvenc'' \<in> set hw_encoders then codec_name @ ''_nvenc''
                  else vaapi)
          else if best_acceleration hw = VULKAN \<and> ''vulkan'' \<in> set hw_encoders
            then codec_name @ ''_vulkan''
          else if best_acceleration hw = OPENCL
            then (if ''nvenc'' \<in> set hw_encoders then codec_name @ ''_nvenc''
                  else if ''qsv'' \<in> set hw_encoders then codec_name @ ''_qsv''
                  else if ''amf'' \<in> set hw_encoders then codec_name @ ''_amf''
                  else vaapi)
          else vaapi)"

section \<open>conversion\_engine.py: command synthesis\<close>

text \<open>The part of the probed input description that command synthesis reads:
  \<open>_get_input_info\<close> always stores \<open>duration\<close> and each stream's \<open>fps\<close> as floats.\<close>

record video_stream =
  fps :: rat

record input_info =
  duration :: rat
  video_streams :: "video_stream list"

definition DEFAULT_VIDEO_ENCODERS :: "(string \<times> string) list" where
  "DEFAULT_VIDEO_ENCODERS =
   [(''h264'', ''libx264''), (''h265'', ''libx265''), (''vp9'', ''libvpx-vp9''),
    (''vp8'', ''libvpx''), (''av1'', ''libaom-av1''), (''mpeg4'', ''mpeg4''),
    (''mjpeg'', ''mjpeg''), (''ffv1'', ''ffv1''), (''prores'', ''prores_ks'')]"

text \<open>Encoder selection in \<open>_apply_video_settings\<close> (lines 228--234), for the codec name
  \<open>video_codec\<close> that normalisation and fallback have produced.\<close>

definition select_video_encoder :: "config \<Rightarrow> HardwareDetector \<Rightarrow> string \<Rightarrow> pyval" where
  "select_video_encoder config hw video_codec =
     (let encoder = cfg_get config ''video_encoder'' in
      if \<not> truthy encoder then
        let default_encoder =
              (case map_of DEFAULT_VIDEO_ENCODERS video_codec of
                 Some e \<Rightarrow> e | None \<Rightarrow> ''lib'' @ video_codec)
        in if truthy (cfg_get_default config ''use_hardware_acceleration'' (PBool True))
           then PStr (get_encoder hw video_codec default_encoder)
           else PStr default_encoder
      else encoder)"


text \<open>The arithmetic of the \<open>target_size\<close> branch (lines 251--254), on the converted
  values: target size in megabytes, probed duration in seconds, audio bitrate in kbps.\<close>

definition target_size_video_kbps :: "rat \<Rightarrow> rat \<Rightarrow> int \<Rightarrow> int" where
  "target_size_video_kbps target_mb probed_duration audio_bitrate =
     (let dur = max probed_duration 1;
          total_kbits = target_mb * 8000
      in max (py_trunc ((total_kbits - of_int audio_bitrate * dur) / dur)) 300)"


text \<open>\<open>ConversionWorker._map_encoder_tune\<close> (lines 369--381). \<open>str(tune).strip().lower()\<close>
  is only tested for emptiness; the text of a float is never blank.\<close>

fun arg_blank :: "arg \<Rightarrow> bool" where
  "arg_blank (Arg s) = (py_lower (py_strip s) = [])"
| "arg_blank (FloatRepr r) = False"

fun arg_truthy :: "arg \<Rightarrow> bool" where
  "arg_truthy (Arg s) = (s \<noteq> [])"
| "arg_truthy (FloatRepr r) = True"

definition map_encoder_tune :: "string \<Rightarrow> pyval \<Rightarrow> arg option" where
  "map_encoder_tune encoder tune =
     (if \<not> truthy tune then None
      else if arg_blank (py_str tune) then None
      else if py_in ''nvenc'' (py_lower encoder) then None
      else Some (py_str tune))"

text \<open>The tune step of \<open>_apply_video_settings\<close> (lines 265--267).\<close>

definition tune_args :: "string \<Rightarrow> config \<Rightarrow> arg list" where
  "tune_args encoder config =
     (case map_encoder_tune encoder (cfg_get config ''video_tune'') of
        None \<Rightarrow> []
      | Some video_tune \<Rightarrow> if arg_truthy video_tune then [Arg ''-tune'', video_tune] else [])"

text \<open>\<open>ConversionWorker._extract_source_fps\<close> (lines 492--500).\<close>

definition extract_source_fps :: "input_info \<Rightarrow> rat" where
  "extract_source_fps info =
     (case video_streams info of
        [] \<Rightarrow> 0
      | s0 # _ \<Rightarrow> if fps s0 \<noteq> 0 then fps s0 else 0)"

text \<open>\<open>ConversionWorker._resolve_gop_size\<close> (lines 470--490): \<open>Inr None\<close> is the
  returned \<open>None\<close>, \<open>Inl\<close> an exception of a conversion.\<close>

definition resolve_gop_size :: "config \<Rightarrow> input_info \<Rightarrow> py_error + pyval option" where
  "resolve_gop_size config info =
     (case or_lower (cfg_get config ''gop_mode'') ''half_fps'' of
        Inl e \<Rightarrow> Inl e
      | Inr mode \<Rightarrow>
          let src_fps = extract_source_fps info;
              default_g = cfg_get config ''gop_size''
          in if src_fps \<le> 0 \<and> \<not> truthy default_g then Inr None
             else if mode = ''half_fps'' \<and> 0 < src_fps
               then Inr (Some (PInt (max 1 (py_round (src_fps / 2)))))
             else if mode = ''same_fps'' \<and> 0 < src_fps
               then Inr (Some (PInt (max 1 (py_round src_fps))))
             else if mode = ''double_fps'' \<and> 0 < src_fps
               then Inr (Some (PInt (max 1 (py_round (src_fps * 2)))))
             else if mode = ''seconds'' \<and> 0 < src_fps
               then (case py_float (cfg_get_default config ''gop_seconds'' (PInt 2)) of
                       Inl e \<Rightarrow> Inl e
                     | Inr seconds \<Rightarrow> Inr (Some (PInt (max 1 (py_round (src_fps * seconds))))))
             else if mode = ''custom'' \<and> truthy default_g
               then (case py_int default_g of
                       Inl e \<Rightarrow> Inl e
                     | Inr g \<Rightarrow> Inr (Some (PInt g)))
             else Inr (if truthy default_g then Some default_g else None))"

text \<open>The GOP step of \<open>_apply_video_settings\<close> (lines 289--291).\<close>

definition gop_args :: "config \<Rightarrow> input_info \<Rightarrow> py_error + arg list" where
  "gop_args config info =
     (case resolve_gop_size config info of
        Inl e \<Rightarrow> Inl e
      | Inr None \<Rightarrow> Inr []
      | Inr (Some gop_size) \<Rightarrow>
          Inr (if truthy gop_size then [Arg ''-g'', py_str gop_size] else []))"

section \<open>temp\_manager.py\<close>

text \<open>
  The file system, as far as the temporary-file manager touches it: which paths exist, and
  whether each is a file or a directory. What the operating system decides is a parameter:
  the fresh path that \<open>uuid4\<close> yields, whether \<open>mkdir\<close> raises (and with which text), and
  whether \<open>unlink\<close>/\<open>shutil.rmtree\<close> raise.
\<close>

datatype node = File | Dir

type_synonym filesystem = "string \<Rightarrow> node option"

record os_env =
  temp_path :: string
  mkdir_fails :: "string option"
  remove_fails :: bool

text \<open>\<open>TempFileManager.create_temp_dir\<close> (lines 34--37): \<open>mkdir(parents=True,
  exist_ok=True)\<close> raises when the path exists as a file.\<close>

definition create_temp_dir :: "os_env \<Rightarrow> filesystem \<Rightarrow> string + (string \<times> filesystem)" where
  "create_temp_dir env fs =
     (case mkdir_fails env of
        Some e \<Rightarrow> Inl e
      | None \<Rightarrow>
          if fs (temp_path env) = Some File
          then Inl (''[Errno 17] File exists: '' @ temp_path env)
          else Inr (temp_path env, fs(temp_path env \<mapsto> Dir)))"

text \<open>\<open>TempFileManager.cleanup_file\<close> (lines 42--50): an exception of the removal is
  swallowed and leaves the path in place.\<close>

definition cleanup_file :: "os_env \<Rightarrow> filesystem \<Rightarrow> string \<Rightarrow> filesystem" where
  "cleanup_file env fs file_path =
     (case fs file_path of
        None \<Rightarrow> fs
      | Some File \<Rightarrow> if remove_fails env then fs else fs(file_path := None)
      | Some Dir \<Rightarrow> if remove_fails env then fs else fs(file_path := None))"

section \<open>conversion\_engine.py: running one job\<close>

datatype signal = Progress rat string | Finished bool string | Error string

text \<open>
  What the child process and the user do while \<open>_execute_conversion\<close> reads the output:
  the lines the iteration over \<open>process.stdout\<close> delivers, interleaved with the moments at
  which \<open>stop()\<close> is called from the window's thread. The end of the list is the end of
  the stream.
\<close>

datatype proc_event = Line string | StopRequest

definition py_rstrip :: "string \<Rightarrow> string" where
  "py_rstrip s = rev (dropWhile is_space (rev s))"

text \<open>The pattern \<open>time=(\d{2}):(\d{2}):(\d{2}\.\d{2})\<close> at the head of a string, and the
  seconds \<open>hours * 3600 + minutes * 60 + seconds\<close> of its groups.\<close>

definition match_time_at :: "string \<Rightarrow> rat option" where
  "match_time_at s =
     (let p = take 16 s in
      if length p = 16 \<and> take 5 p = ''time='' \<and> p ! 7 = CHR '':'' \<and> p ! 10 = CHR '':''
         \<and> p ! 13 = CHR ''.''
      then (case map digit_val [p ! 5, p ! 6, p ! 8, p ! 9, p ! 11, p ! 12, p ! 14, p ! 15] of
              [Some h1, Some h2, Some m1, Some m2, Some s1, Some s2, Some f1, Some f2] \<Rightarrow>
                Some (of_nat (h1 * 10 + h2) * 3600 + of_nat (m1 * 10 + m2) * 60
                      + (of_nat (s1 * 10 + s2) + of_nat (f1 * 10 + f2) / 100))
            | _ \<Rightarrow> None)
      else None)"

text \<open>\<open>time_pattern.search(line)\<close>: the leftmost match.\<close>

fun time_search :: "string \<Rightarrow> rat option" where
  "time_search [] = None"
| "time_search (c # cs) =
     (case match_time_at (c # cs) of Some t \<Rightarrow> Some t | None \<Rightarrow> time_search cs)"

text \<open>\<open>f"{x:.1f}"\<close>: one decimal, ties to even.\<close>

definition fmt_1f :: "rat \<Rightarrow> string" where
  "fmt_1f r =
     (let n = nat (py_round (\<bar>r\<bar> * 10)) in
      (if r < 0 then [CHR ''-''] else []) @ str_of_nat (n div 10) @ [CHR ''.'']
        @ str_of_nat (n mod 10))"

text \<open>The reading loop of \<open>_execute_conversion\<close> (lines 557--574). The state is the stop
  flag and the ring of the last 200 non-blank lines; the result is the \<open>cancelled\<close> flag,
  the ring, and the progress signals in the order of emission.\<close>

fun read_loop :: "rat \<Rightarrow> proc_event list \<Rightarrow> bool \<Rightarrow> string list
    \<Rightarrow> bool \<times> string list \<times> signal list" where
  "read_loop dur [] should_stop output_lines = (False, output_lines, [])"
| "read_loop dur (StopRequest # evs) should_stop output_lines =
     read_loop dur evs True output_lines"
| "read_loop dur (Line l # evs) should_stop output_lines =
     (let stripped = py_rstrip l;
          output_lines' =
            (if stripped \<noteq> []
             then (let ls = output_lines @ [stripped] in if 200 < length ls then tl ls else ls)
             else output_lines)
      in if should_stop then (True, output_lines', [])
         else
           let emitted =
                 (case time_search l of
                    Some current_time \<Rightarrow>
                      if 0 < dur
                      then (let progress = min (current_time / dur * 90 + 10) 99
                            in [Progress progress (''Converting... '' @ fmt_1f progress @ ''%'')])
                      else []
                  | None \<Rightarrow> []);
               (cancelled, ls, sigs) = read_loop dur evs should_stop output_lines'
           in (cancelled, ls, emitted @ sigs))"

definition join_lines :: "string list \<Rightarrow> string" where
  "join_lines ls = (case ls of [] \<Rightarrow> [] | x # xs \<Rightarrow> x @ concat (map (\<lambda>l. CHR 0x0A # l) xs))"

text \<open>What decides the run of one job from outside: the operating system, the two paths of
  the job configuration (absent keys raise \<open>KeyError\<close>), the result of probing the input,
  the result of building the command (the command, or the text of the exception), whether
  \<open>Popen\<close> raises, whether \<open>stop()\<close> was called before the first line was read, the
  events of the reading loop, and the exit code of the child.\<close>

record job_env = os_env +
  input_file :: "string option"
  output_file :: "string option"
  probe :: "input_info option"
  build :: "string + string list"
  popen_fails :: "string option"
  stopped_early :: bool
  events :: "proc_event list"
  returncode :: int

text \<open>\<open>ConversionWorker._execute_conversion\<close> (lines 540--591): the returned pair and the
  progress signals emitted on the way.\<close>

definition execute_conversion :: "job_env \<Rightarrow> rat \<Rightarrow> (bool \<times> string) \<times> signal list" where
  "execute_conversion env dur =
     (case popen_fails env of
        Some exc \<Rightarrow> ((False, exc), [])
      | None \<Rightarrow>
          let (cancelled, output_lines, sigs) = read_loop dur (events env) (stopped_early env) []
          in if cancelled then ((False, ''Conversion cancelled''), sigs)
             else if returncode env = 0 then ((True, []), sigs)
             else
               let tail = (if output_lines \<noteq> []
                           then join_lines (drop (length output_lines - 20) output_lines) else []);
                   message = py_strip (''ffmpeg exited with code '' @ str_of_int (returncode env));
                   message' = (if tail \<noteq> [] then message @ [CHR 0x0A] @ tail else message)
               in ((False, message'), sigs))"

text \<open>\<open>str(KeyError(k))\<close> is the key in single quotes.\<close>

definition key_error :: "string \<Rightarrow> string" where
  "key_error k = [CHR 0x27] @ k @ [CHR 0x27]"

text \<open>The \<open>except Exception\<close> handler of \<open>run\<close> (lines 90--92).\<close>

definition on_exception :: "string \<Rightarrow> signal list" where
  "on_exception e = [Error (''Conversion error: '' @ e), Finished False e]"

text \<open>The \<open>try\<close> body of \<open>ConversionWorker.run\<close> after the temporary directory has been
  created (lines 64--88): the signals emitted.\<close>

definition run_body :: "job_env \<Rightarrow> signal list" where
  "run_body env =
     (case input_file env of
        None \<Rightarrow> on_exception (key_error ''input_file'')
      | Some inp \<Rightarrow>
     (case output_file env of
        None \<Rightarrow> on_exception (key_error ''output_file'')
      | Some outp \<Rightarrow>
          Progress 0 ''Analyzing input file...'' #
          (case probe env of
             None \<Rightarrow> [Error ''Failed to analyze input file'', Finished False ''Analysis failed'']
           | Some info \<Rightarrow>
               Progress 5 ''Building conversion command...'' #
               (case build env of
                  Inl e \<Rightarrow> on_exception e
                | Inr command \<Rightarrow>
                    Progress 10 ''Starting conversion...'' #
                    (let ((success, result_message), sigs) = execute_conversion env (duration info)
                     in sigs @
                        (if success
                         then [Progress 100 ''Conversion complete!'', Finished True outp]
                         else (if result_message \<noteq> [] \<and> result_message \<noteq> ''Conversion cancelled''
                               then [Error result_message] else [])
                              @ [Finished False
                                   (if result_message \<noteq> [] then result_message
                                    else ''Conversion failed'')]))))))"

text \<open>\<open>ConversionWorker.run\<close> (lines 60--95): the signals emitted and the file system
  afterwards. When \<open>create_temp_dir\<close> raises, \<open>self.temp_dir\<close> is still \<open>None\<close> and the
  \<open>finally\<close> clause removes nothing.\<close>

definition run :: "job_env \<Rightarrow> filesystem \<Rightarrow> signal list \<times> filesystem" where
  "run env fs =
     (case create_temp_dir (os_env.truncate env) fs of
        Inl e \<Rightarrow> (on_exception e, fs)
      | Inr (temp_dir, fs1) \<Rightarrow> (run_body env, cleanup_file (os_env.truncate env) fs1 temp_dir))"

section \<open>conversion\_engine.py: the engine\<close>

text \<open>
  \<open>HardwareDetector.detect\<close> (hardware\_detector.py, lines 26--36) runs external programs;
  \<open>machine\<close> holds the fields that its four detection steps leave in the object on the
  machine at hand. An empty binary path returns \<open>False\<close> before any step runs.
\<close>

definition detect :: "HardwareDetector \<Rightarrow> string \<Rightarrow> bool \<times> HardwareDetector" where
  "detect machine path =
     (if path = []
      then (False, \<lparr>ffmpeg_path = path, available_hwaccels = [], available_encoders = [],
                    detected_gpu = None, best_acceleration = NONE\<rparr>)
      else (best_acceleration machine \<noteq> NONE, machine\<lparr>ffmpeg_path := path\<rparr>))"

text \<open>A \<open>ConversionWorker\<close> object: its identity (Python's \<open>is\<close>) and the job it was
  created for.\<close>

record ConversionWorker =
  worker_id :: nat
  job_input_file :: string

record ConversionEngine =
  config_ffmpeg_path :: string
  hw_detector :: "HardwareDetector option"
  workers_created :: nat

text \<open>\<open>ConversionEngine.initialize_hardware\<close> (lines 601--607).\<close>

definition initialize_hardware :: "HardwareDetector \<Rightarrow> ConversionEngine \<Rightarrow> bool \<times> ConversionEngine" where
  "initialize_hardware machine eng =
     (if config_ffmpeg_path eng = [] then (False, eng)
      else let (ok, hw) = detect machine (config_ffmpeg_path eng)
           in (ok, eng\<lparr>hw_detector := Some hw\<rparr>))"

text \<open>\<open>ConversionEngine.create_conversion_job\<close> (lines 609--620).\<close>

definition new_worker :: "ConversionEngine \<Rightarrow> string \<Rightarrow> ConversionWorker option \<times> ConversionEngine" where
  "new_worker eng job =
     (Some \<lparr>worker_id = workers_created eng, job_input_file = job\<rparr>,
      eng\<lparr>workers_created := Suc (workers_created eng)\<rparr>)"

definition create_conversion_job ::
    "HardwareDetector \<Rightarrow> ConversionEngine \<Rightarrow> string \<Rightarrow> ConversionWorker option \<times> ConversionEngine" where
  "create_conversion_job machine eng job =
     (case hw_detector eng of
        None \<Rightarrow>
          (let (ok, eng') = initialize_hardware machine eng
           in if \<not> ok then (None, eng') else new_worker eng' job)
      | Some _ \<Rightarrow> new_worker eng job)"

section \<open>main\_window.py: the scheduler\<close>

text \<open>Python dictionaries keep insertion order; the two dictionaries of the window are
  association lists with distinct keys.\<close>

fun dict_set :: "('k \<times> 'v) list \<Rightarrow> 'k \<Rightarrow> 'v \<Rightarrow> ('k \<times> 'v) list" where
  "dict_set [] k v = [(k, v)]"
| "dict_set ((k', v') # d) k v = (if k' = k then (k, v) # d else (k', v') # dict_set d k v)"

definition dict_del :: "('k \<times> 'v) list \<Rightarrow> 'k \<Rightarrow> ('k \<times> 'v) list" where
  "dict_del d k = filter (\<lambda>kv. fst kv \<noteq> k) d"

record MainWindow =
  conversion_engine :: ConversionEngine
  max_parallel_conversions :: int
  active_conversions :: "(string \<times> ConversionWorker) list"
  conversion_queue :: "string list"
  progress_values :: "(string \<times> rat) list"
  progress_bar :: int
  message_boxes :: "string list"

definition message_box :: "string \<Rightarrow> MainWindow \<Rightarrow> MainWindow" where
  "message_box text st = st\<lparr>message_boxes := message_boxes st @ [text]\<rparr>"

text \<open>\<open>MainWindow.process_next_in_queue\<close> (lines 945--1006). The job configuration is read
  from the widgets; the job is identified by its input file.\<close>

definition process_next_in_queue :: "HardwareDetector \<Rightarrow> MainWindow \<Rightarrow> MainWindow" where
  "process_next_in_queue machine st =
     (case conversion_queue st of
        [] \<Rightarrow>
          if active_conversions st = []
          then message_box ''All conversions completed!'' (st\<lparr>progress_bar := 0\<rparr>)
          else st
      | inp # rest \<Rightarrow>
          let st1 = st\<lparr>conversion_queue := rest\<rparr>;
              (worker, eng) = create_conversion_job machine (conversion_engine st1) inp;
              st2 = st1\<lparr>conversion_engine := eng\<rparr>
          in case worker of
               None \<Rightarrow> message_box ''Failed to create conversion job'' st2
             | Some w \<Rightarrow> st2\<lparr>active_conversions := dict_set (active_conversions st2) inp w\<rparr>)"

text \<open>\<open>MainWindow.fill_conversion_slots\<close> (lines 1008--1011).\<close>

function fill_conversion_slots :: "HardwareDetector \<Rightarrow> MainWindow \<Rightarrow> MainWindow" where
  "fill_conversion_slots machine st =
     (if conversion_queue st \<noteq> []
         \<and> int (length (active_conversions st)) < max 1 (max_parallel_conversions st)
      then fill_conversion_slots machine (process_next_in_queue machine st)
      else st)"
  by pat_completeness auto
termination
  by (relation "measure (\<lambda>(machine, st). length (conversion_queue st))")
    (auto simp: process_next_in_queue_def message_box_def Let_def
      split: list.splits prod.splits option.splits)

declare fill_conversion_slots.simps [simp del]

text \<open>\<open>MainWindow.on_conversion_progress\<close> (lines 1013--1023). \<open>sender\<close> is the identity
  of the object that emitted the signal, if any.\<close>

definition is_sender :: "nat option \<Rightarrow> string \<times> ConversionWorker \<Rightarrow> bool" where
  "is_sender sender kw = (sender = Some (worker_id (snd kw)))"

definition on_conversion_progress :: "MainWindow \<Rightarrow> nat option \<Rightarrow> rat \<Rightarrow> MainWindow" where
  "on_conversion_progress st sender progress =
     (let st1 = (case find (is_sender sender) (active_conversions st) of
                   Some (key, w) \<Rightarrow> st\<lparr>progress_values := dict_set (progress_values st) key progress\<rparr>
                 | None \<Rightarrow> st)
      in if progress_values st1 \<noteq> []
         then let avg = sum_list (map snd (progress_values st1))
                        / of_nat (max 1 (length (progress_values st1)))
              in st1\<lparr>progress_bar := py_trunc avg\<rparr>
         else st1)"

text \<open>\<open>MainWindow.on_conversion_finished\<close> (lines 1025--1072). First the bookkeeping
  (lines 1026--1045): the entry of the sending worker is removed from both dictionaries;
  when the sender is not among the active workers, the most recent entry is removed
  instead (\<open>popitem\<close>).\<close>

definition remove_finished :: "MainWindow \<Rightarrow> nat option \<Rightarrow> MainWindow" where
  "remove_finished st sender =
     (case find (is_sender sender) (active_conversions st) of
        Some (key, w) \<Rightarrow>
          st\<lparr>active_conversions := dict_del (active_conversions st) key,
             progress_values := dict_del (progress_values st) key\<rparr>
      | None \<Rightarrow>
          if active_conversions st \<noteq> []
          then st\<lparr>active_conversions := butlast (active_conversions st),
                  progress_values :=
                    dict_del (progress_values st) (fst (last (active_conversions st)))\<rparr>
          else st)"

text \<open>Then the outcome (lines 1060--1072): only a success refills the slots; the text
  shown in the warning is cut to 500 characters.\<close>

definition on_conversion_finished ::
    "HardwareDetector \<Rightarrow> MainWindow \<Rightarrow> nat option \<Rightarrow> bool \<Rightarrow> string \<Rightarrow> MainWindow" where
  "on_conversion_finished machine st sender success message =
     (let st1 = remove_finished st sender
      in if success then fill_conversion_slots machine st1
         else
           let failure_msg = (if message \<noteq> [] then message else ''Conversion failed'')
           in if failure_msg = ''Conversion cancelled'' then st1
              else
                let display_msg = (if 500 < length failure_msg then take 500 failure_msg @ ''...''
                                   else failure_msg)
                in message_box (''Failed:'' @ [CHR 0x0A] @ display_msg) st1)"

text \<open>\<open>MainWindow.stop_conversion\<close> (lines 1077--1091).\<close>

definition stop_conversion :: "MainWindow \<Rightarrow> MainWindow" where
  "stop_conversion st = st\<lparr>active_conversions := [], progress_values := []\<rparr>"

text \<open>\<open>MainWindow.start_conversion\<close> (lines 931--943); \<open>output_ok\<close> says whether the output
  directory is set and exists.\<close>

definition start_conversion :: "HardwareDetector \<Rightarrow> MainWindow \<Rightarrow> bool \<Rightarrow> MainWindow" where
  "start_conversion machine st output_ok =
     (if conversion_queue st = [] then message_box ''Please add files to the queue first.'' st
      else if \<not> output_ok then message_box ''Please select a valid output directory.'' st
      else fill_conversion_slots machine st)"

text \<open>\<open>add_files\<close>/\<open>add_folder\<close> (lines 882--918) and \<open>clear_queue\<close> (lines 920--922).\<close>

definition add_files :: "MainWindow \<Rightarrow> string list \<Rightarrow> MainWindow" where
  "add_files st files = st\<lparr>conversion_queue := conversion_queue st @ files\<rparr>"

definition clear_queue :: "MainWindow \<Rightarrow> MainWindow" where
  "clear_queue st = st\<lparr>conversion_queue := []\<rparr>"

text \<open>What can happen to the window: the user's actions and the signals of the workers,
  delivered one at a time on the window's thread.\<close>

datatype window_event =
    AddFiles "string list"
  | ClearQueue
  | StartConversion bool
  | StopConversion
  | ConversionProgress "nat option" rat
  | ConversionFinished "nat option" bool string

fun handle :: "HardwareDetector \<Rightarrow> MainWindow \<Rightarrow> window_event \<Rightarrow> MainWindow" where
  "handle machine st (AddFiles files) = add_files st files"
| "handle machine st ClearQueue = clear_queue st"
| "handle machine st (StartConversion output_ok) = start_conversion machine st output_ok"
| "handle machine st StopConversion = stop_conversion st"
| "handle machine st (ConversionProgress sender progress) = on_conversion_progress st sender progress"
| "handle machine st (ConversionFinished sender success message) =
     on_conversion_finished machine st sender success message"

definition run_events :: "HardwareDetector \<Rightarrow> MainWindow \<Rightarrow> window_event list \<Rightarrow> MainWindow" where
  "run_events machine st evs = foldl (handle machine) st evs"

text \<open>\<open>MainWindow.__init__\<close> (lines 36--41): nothing queued, nothing active.\<close>

definition init_window :: "string \<Rightarrow> int \<Rightarrow> MainWindow" where
  "init_window path n =
     \<lparr>conversion_engine = \<lparr>config_ffmpeg_path = path, hw_detector = None, workers_created = 0\<rparr>,
      max_parallel_conversions = n, active_conversions = [], conversion_queue = [],
      progress_values = [], progress_bar = 0, message_boxes = []\<rparr>"


section \<open>Scheduler invariants\<close>



section \<open>Concrete machines and runs\<close>


definition cpu_only_machine :: HardwareDetector where
  "cpu_only_machine =
     \<lparr>ffmpeg_path = ''ffmpeg'', available_hwaccels = [],
      available_encoders = [(''h264'', []), (''hevc'', []), (''vp9'', []), (''av1'', [])],
      detected_gpu = None, best_acceleration = NONE\<rparr>"

text \<open>A run in which the child prints one status line, the user then presses stop, and
  the terminated child closes its output without printing another line (exit code
  \<open>-15\<close>, the signal of \<open>terminate()\<close>).\<close>

definition stop_after_last_line :: job_env where
  "stop_after_last_line =
     \<lparr>temp_path = ''/tmp/chunmediaconv/session/job_1'', mkdir_fails = None, remove_fails = False,
      input_file = Some ''a.mkv'', output_file = Some ''out/a.mp4'',
      probe = Some \<lparr>duration = 120, video_streams = [\<lparr>fps = 30\<rparr>]\<rparr>,
      build = Inr [''ffmpeg'', ''-y'', ''-i'', ''a.mkv'', ''out/a.mp4''],
      popen_fails = None, stopped_early = False,
      events = [Line ''frame=  100 fps= 25 time=00:00:04.00 bitrate= 900kbits/s'', StopRequest],
      returncode = - 15\<rparr>"

section \<open>Evaluation helpers\<close>

lemma py_lower_char_simps:
  "py_lower_char c =
     (if c = CHR ''A'' then CHR ''a'' else if c = CHR ''B'' then CHR ''b''
      else if c = CHR ''C'' then CHR ''c'' else if c = CHR ''D'' then CHR ''d''
      else if c = CHR ''E'' then CHR ''e'' else if c = CHR ''F'' then CHR ''f''
      else if c = CHR ''G'' then CHR ''g'' else if c = CHR ''H'' then CHR ''h''
      else if c = CHR ''I'' then CHR ''i'' else if c = CHR ''J'' then CHR ''j''
      else if c = CHR ''K'' then CHR ''k'' else if c = CHR ''L'' then CHR ''l''
      else if c = CHR ''M'' then CHR ''m'' else if c = CHR ''N'' then CHR ''n''
      else if c = CHR ''O'' then CHR ''o'' else if c = CHR ''P'' then CHR ''p''
      else if c = CHR ''Q'' then CHR ''q'' else if c = CHR ''R'' then CHR ''r''
      else if c = CHR ''S'' then CHR ''s'' else if c = CHR ''T'' then CHR ''t''
      else if c = CHR ''U'' then CHR ''u'' else if c = CHR ''V'' then CHR ''v''
      else if c = CHR ''W'' then CHR ''w'' else if c = CHR ''X'' then CHR ''x''
      else if c = CHR ''Y'' then CHR ''y'' else if c = CHR ''Z'' then CHR ''z''
      else c)"
  by (simp add: py_lower_char_def)

section \<open>Format compatibility: fallback resolution\<close>

lemma get_format_info_audio_nonempty:
  assumes "get_format_info C = Some fmt"
  shows "supported_audio_codecs fmt \<noteq> []"
proof -
  from assms have "(C, fmt) \<in> set initialize_formats"
    unfolding get_format_info_def by (rule map_of_SomeD)
  then show ?thesis
    unfolding initialize_formats_def by auto
qed

lemma get_format_info_video_nonempty:
  assumes "get_format_info C = Some fmt" and "type fmt = ''video''"
  shows "supported_video_codecs fmt \<noteq> []"
proof -
  from assms(1) have "(C, fmt) \<in> set initialize_formats"
    unfolding get_format_info_def by (rule map_of_SomeD)
  with assms(2) show ?thesis
    unfolding initialize_formats_def by auto
qed

text \<open>
  C1, as stated, fails twice. For the audio-only container \<open>mp3\<close> the allowed video set is
  empty, and the requested video codec is returned unchanged, so it is not a member of that
  set. For an unknown container the returned pair is \<open>(libx264, aac)\<close>, not
  \<open>(h264, aac)\<close>.
\<close>

theorem get_fallback_codec_counterexample:
  "fst (get_fallback_codec ''mp3'' ''h264'' ''aac'') \<notin> set (get_compatible_video_codecs ''mp3'')
   \<and> get_fallback_codec ''xyz'' ''h264'' ''aac'' \<noteq> (''h264'', ''aac'')"
  by (simp add: get_fallback_codec_def get_compatible_video_codecs_def get_format_info_def
      initialize_formats_def)

text \<open>
  C1 (amended). For a known container the returned audio codec is always a member of the
  container's allowed audio list; the returned video codec is a member of the allowed video
  list whenever that list is non-empty, and is the requested codec, unchanged, when the list
  is empty (the audio-only containers). For an unknown container the result is the fixed
  pair \<open>(libx264, aac)\<close>, whatever was requested; codec normalisation maps its video
  component to \<open>h264\<close>.
\<close>

theorem get_fallback_codec_allowed:
  "(get_format_info C = None \<longrightarrow>
      get_fallback_codec C v a = (''libx264'', ''aac'')
      \<and> normalize_video_codec (Some (fst (get_fallback_codec C v a))) = ''h264'')
   \<and> (\<forall>fmt. get_format_info C = Some fmt \<longrightarrow>
         snd (get_fallback_codec C v a) \<in> set (supported_audio_codecs fmt)
         \<and> (supported_video_codecs fmt \<noteq> [] \<longrightarrow>
               fst (get_fallback_codec C v a) \<in> set (supported_video_codecs fmt))
         \<and> (supported_video_codecs fmt = [] \<longrightarrow> fst (get_fallback_codec C v a) = v))"
proof (intro conjI impI allI)
  assume none: "get_format_info C = None"
  then show "get_fallback_codec C v a = (''libx264'', ''aac'')"
    by (simp add: get_fallback_codec_def)
  then show "normalize_video_codec (Some (fst (get_fallback_codec C v a))) = ''h264''"
    by (simp add: normalize_video_codec_def py_lower_def py_lower_char_simps
        video_codec_mapping_def)
next
  fix fmt
  assume some: "get_format_info C = Some fmt"
  then have "supported_audio_codecs fmt \<noteq> []"
    by (rule get_format_info_audio_nonempty)
  with some show "snd (get_fallback_codec C v a) \<in> set (supported_audio_codecs fmt)"
    by (auto simp: get_fallback_codec_def Let_def split: list.splits)
next
  fix fmt
  assume "get_format_info C = Some fmt" and "supported_video_codecs fmt \<noteq> []"
  then show "fst (get_fallback_codec C v a) \<in> set (supported_video_codecs fmt)"
    by (auto simp: get_fallback_codec_def Let_def split: list.splits)
next
  fix fmt
  assume "get_format_info C = Some fmt" and "supported_video_codecs fmt = []"
  then show "fst (get_fallback_codec C v a) = v"
    by (simp add: get_fallback_codec_def Let_def)
qed

theorem get_fallback_codec_allowed_witness:
  "get_format_info ''xyz'' = None
   \<and> get_fallback_codec ''xyz'' ''vp9'' ''opus'' = (''libx264'', ''aac'')
   \<and> get_fallback_codec ''mp4'' ''vp9'' ''opus'' = (''h264'', ''aac'')
   \<and> get_compatible_video_codecs ''mp4'' \<noteq> []
   \<and> fst (get_fallback_codec ''mp4'' ''vp9'' ''opus'') \<in> set (get_compatible_video_codecs ''mp4'')
   \<and> snd (get_fallback_codec ''mp4'' ''vp9'' ''opus'') \<in> set (get_compatible_audio_codecs ''mp4'')
   \<and> get_compatible_video_codecs ''mp3'' = []
   \<and> fst (get_fallback_codec ''mp3'' ''vp9'' ''opus'') = ''vp9''
   \<and> snd (get_fallback_codec ''mp3'' ''vp9'' ''opus'') \<in> set (get_compatible_audio_codecs ''mp3'')"
  using get_fallback_codec_allowed [of "''xyz''" "''vp9''" "''opus''"]
    get_fallback_codec_allowed [of "''mp4''" "''vp9''" "''opus''"]
    get_fallback_codec_allowed [of "''mp3''" "''vp9''" "''opus''"]
  by (simp add: get_fallback_codec_def get_compatible_video_codecs_def
      get_compatible_audio_codecs_def get_format_info_def initialize_formats_def)

section \<open>Target-size bitrate\<close>

lemma py_trunc_mono: "x \<le> y \<Longrightarrow> py_trunc x \<le> py_trunc y"
proof -
  assume xy: "x \<le> y"
  consider "0 \<le> x" | "x < 0" "0 \<le> y" | "x < 0" "y < 0" by linarith
  then show ?thesis
  proof cases
    case 1
    with xy show ?thesis by (simp add: py_trunc_def floor_mono)
  next
    case 2
    then have "\<lceil>x\<rceil> \<le> 0" and "0 \<le> \<lfloor>y\<rfloor>"
      by simp_all
    then have "\<lceil>x\<rceil> \<le> \<lfloor>y\<rfloor>"
      by (rule order_trans)
    with 2 show ?thesis by (simp add: py_trunc_def)
  next
    case 3
    with xy show ?thesis by (simp add: py_trunc_def ceiling_mono)
  qed
qed






text \<open>
  C8. For a fixed duration and a fixed audio bitrate the computed video bitrate is never
  below 300 kbps, and a larger target size never gives a smaller bitrate.
\<close>

theorem target_size_floor_and_monotone:
  "300 \<le> target_size_video_kbps S1 d a
   \<and> (S1 \<le> S2 \<longrightarrow> target_size_video_kbps S1 d a \<le> target_size_video_kbps S2 d a)"
proof (intro conjI impI)
  show "300 \<le> target_size_video_kbps S1 d a"
    by (simp add: target_size_video_kbps_def Let_def)
next
  assume le: "S1 \<le> S2"
  have pos: "0 < max d 1" by simp
  from le have "S1 * 8000 - of_int a * max d 1 \<le> S2 * 8000 - of_int a * max d 1"
    by simp
  with pos have "(S1 * 8000 - of_int a * max d 1) / max d 1
      \<le> (S2 * 8000 - of_int a * max d 1) / max d 1"
    by (simp add: divide_right_mono)
  then have "py_trunc ((S1 * 8000 - of_int a * max d 1) / max d 1)
      \<le> py_trunc ((S2 * 8000 - of_int a * max d 1) / max d 1)"
    by (rule py_trunc_mono)
  then show "target_size_video_kbps S1 d a \<le> target_size_video_kbps S2 d a"
    by (simp add: target_size_video_kbps_def Let_def max.coboundedI1)
qed

theorem target_size_floor_and_monotone_witness:
  "(50 :: rat) \<le> 100
   \<and> 300 \<le> target_size_video_kbps 50 120 128
   \<and> target_size_video_kbps 50 120 128 \<le> target_size_video_kbps 100 120 128"
  using target_size_floor_and_monotone [of 50 120 128 100] by simp

section \<open>GOP size\<close>

text \<open>The four modes that are relative to the source frame rate clamp their result.\<close>

lemma resolve_gop_size_fps_modes:
  assumes "or_lower (cfg_get config ''gop_mode'') ''half_fps'' = Inr mode"
    and "mode \<in> {''half_fps'', ''same_fps'', ''double_fps'', ''seconds''}"
    and "0 < extract_source_fps info"
    and "resolve_gop_size config info = Inr (Some g)"
  shows "\<exists>i. g = PInt i \<and> 1 \<le> i"
  using assms
  by (auto simp: resolve_gop_size_def Let_def split: sum.splits if_splits)

text \<open>
  C3: the code breaks the claim in \<open>custom\<close> mode. With a source frame rate of 30 and a
  configured \<open>gop_size\<close> of \<open>-5\<close> the resolved GOP size is \<open>-5\<close> and the flag
  \<open>-g -5\<close> is emitted: the \<open>custom\<close> branch lacks the \<open>max(1, ...)\<close> of its siblings.
\<close>

theorem resolve_gop_size_custom_negative:
  "extract_source_fps \<lparr>duration = 120, video_streams = [\<lparr>fps = 30\<rparr>]\<rparr> = 30
   \<and> resolve_gop_size [''gop_mode'' \<mapsto> PStr ''custom'', ''gop_size'' \<mapsto> PInt (- 5)]
       \<lparr>duration = 120, video_streams = [\<lparr>fps = 30\<rparr>]\<rparr> = Inr (Some (PInt (- 5)))
   \<and> gop_args [''gop_mode'' \<mapsto> PStr ''custom'', ''gop_size'' \<mapsto> PInt (- 5)]
       \<lparr>duration = 120, video_streams = [\<lparr>fps = 30\<rparr>]\<rparr> = Inr [Arg ''-g'', Arg ''-5'']"
  by code_simp

section \<open>Tune mapping\<close>

lemma tune_args_nvenc: "py_in ''nvenc'' (py_lower encoder) \<Longrightarrow> tune_args encoder config = []"
  by (simp add: tune_args_def map_encoder_tune_def)

text \<open>
  C7: the code breaks the claim for every hardware encoder family other than NVENC. With
  Quick Sync selected, the encoder for \<open>h264\<close> is \<open>h264_qsv\<close>, and a requested tune
  \<open>film\<close> is emitted as \<open>-tune film\<close>.
\<close>

theorem tune_args_qsv_emitted:
  "select_video_encoder [''video_tune'' \<mapsto> PStr ''film'']
     \<lparr>ffmpeg_path = ''ffmpeg'', available_hwaccels = [''qsv''],
      available_encoders = [(''h264'', [''qsv'']), (''hevc'', []), (''vp9'', []), (''av1'', [])],
      detected_gpu = Some ''Intel(R) UHD Graphics'', best_acceleration = QSV\<rparr>
     ''h264'' = PStr ''h264_qsv''
   \<and> tune_args ''h264_qsv'' [''video_tune'' \<mapsto> PStr ''film''] = [Arg ''-tune'', Arg ''film'']"
  by code_simp


section \<open>Cancellation\<close>

text \<open>Once the stop flag is set, the loop reports a cancellation exactly when it gets to
  read one more line.\<close>

lemma read_loop_stop_seen:
  "fst (read_loop d evs True ls) \<longleftrightarrow> (\<exists>l. Line l \<in> set evs)"
proof (induction evs arbitrary: ls)
  case Nil
  then show ?case by simp
next
  case (Cons e evs)
  then show ?case by (cases e) (auto simp: Let_def)
qed

lemma execute_conversion_cancelled:
  assumes "popen_fails env = None" and "stopped_early env" and "Line l \<in> set (events env)"
  shows "fst (execute_conversion env d) = (False, ''Conversion cancelled'')"
proof -
  from assms(3) have "fst (read_loop d (events env) True [])"
    by (auto simp: read_loop_stop_seen)
  with assms(1,2) show ?thesis
    by (auto simp: execute_conversion_def split: prod.splits)
qed

lemma read_loop_signals:
  "read_loop d evs stop ls = (c, ls', sigs) \<Longrightarrow> s \<in> set sigs \<Longrightarrow> \<exists>p m. s = Progress p m"
proof (induction evs arbitrary: stop ls c ls' sigs)
  case Nil
  then show ?case by simp
next
  case (Cons e evs)
  show ?case
  proof (cases e)
    case StopRequest
    with Cons show ?thesis by auto
  next
    case (Line l)
    show ?thesis
    proof (cases stop)
      case True
      with Line Cons.prems show ?thesis by (simp add: Let_def)
    next
      case False
      with Line Cons.prems Cons.IH show ?thesis
        by (auto simp: Let_def split: prod.splits option.splits if_splits)
    qed
  qed
qed

text \<open>A stop request that the loop gets to see ends the job as cancelled, without an
  error signal.\<close>

lemma run_body_cancelled:
  assumes "input_file env = Some inp" and "output_file env = Some outp"
    and "probe env = Some info" and "build env = Inr command"
    and "popen_fails env = None" and "stopped_early env" and "Line l \<in> set (events env)"
  shows "last (run_body env) = Finished False ''Conversion cancelled''"
    and "Error e \<notin> set (run_body env)"
proof -
  obtain sigs where ex: "execute_conversion env (duration info)
      = ((False, ''Conversion cancelled''), sigs)"
    using execute_conversion_cancelled [OF assms(5,6,7), of "duration info"]
    by (cases "execute_conversion env (duration info)") auto
  with assms(1-4) show "last (run_body env) = Finished False ''Conversion cancelled''"
    by (simp add: run_body_def)
  from ex assms(5) have "sigs = snd (snd (read_loop (duration info) (events env)
      (stopped_early env) []))"
    by (auto simp: execute_conversion_def Let_def split: prod.splits if_splits)
  then have "Error e \<notin> set sigs"
    using read_loop_signals [of "duration info" "events env" "stopped_early env" "[]" _ _ sigs "Error e"]
    by (cases "read_loop (duration info) (events env) (stopped_early env) []") auto
  with ex assms(1-4) show "Error e \<notin> set (run_body env)"
    by (simp add: run_body_def)
qed

text \<open>
  C5: the code breaks the claim when the stop request arrives after the last line the loop
  reads. The child prints one line, the user stops the job, \<open>terminate()\<close> ends the child
  (exit code \<open>-15\<close>) and its output closes without another line: the loop ends with
  \<open>cancelled\<close> still false, the error signal is emitted, and the job is reported as failed
  with the text \<open>ffmpeg exited with code -15\<close>.
\<close>

theorem run_stop_after_last_line_reports_failure:
  "fst (run stop_after_last_line Map.empty) =
     [Progress 0 ''Analyzing input file...'',
      Progress 5 ''Building conversion command...'',
      Progress 10 ''Starting conversion...'',
      Progress 13 ''Converting... 13.0%'',
      Error (''ffmpeg exited with code -15'' @ [CHR 0x0A]
             @ ''frame=  100 fps= 25 time=00:00:04.00 bitrate= 900kbits/s''),
      Finished False (''ffmpeg exited with code -15'' @ [CHR 0x0A]
             @ ''frame=  100 fps= 25 time=00:00:04.00 bitrate= 900kbits/s'')]"
  by code_simp

section \<open>The temporary directory of a job\<close>

text \<open>
  C9, as stated, fails when the removal itself raises: \<open>cleanup_file\<close> swallows the
  exception, and the directory is still there after the job has ended.
\<close>

theorem run_leaves_temp_dir_counterexample:
  "snd (run (stop_after_last_line\<lparr>remove_fails := True\<rparr>) Map.empty)
     ''/tmp/chunmediaconv/session/job_1'' = Some Dir"
  by code_simp

text \<open>
  C9 (amended). Whatever the outcome of the job (the environment is arbitrary: analysis
  failure, an exception while building the command, a failed launch, success, failure or
  cancellation), the temporary directory that was created before execution no longer
  exists when \<open>run\<close> returns, provided the removal does not raise. When the directory could
  not be created, the file system is left as it was.
\<close>

theorem run_removes_temp_dir:
  "(create_temp_dir (os_env.truncate env) fs = Inr (d, fs1) \<longrightarrow> \<not> remove_fails env \<longrightarrow>
      snd (run env fs) d = None)
   \<and> (\<forall>e. create_temp_dir (os_env.truncate env) fs = Inl e \<longrightarrow> snd (run env fs) = fs)"
  by (auto simp: run_def cleanup_file_def create_temp_dir_def os_env.truncate_def
      split: option.splits node.splits if_splits)

theorem run_removes_temp_dir_witness:
  "create_temp_dir (os_env.truncate stop_after_last_line) Map.empty
     = Inr (''/tmp/chunmediaconv/session/job_1'',
            [''/tmp/chunmediaconv/session/job_1'' \<mapsto> Dir])
   \<and> \<not> remove_fails stop_after_last_line
   \<and> snd (run stop_after_last_line Map.empty) ''/tmp/chunmediaconv/session/job_1'' = None
   \<and> create_temp_dir (os_env.truncate (stop_after_last_line\<lparr>mkdir_fails := Some ''disk full''\<rparr>))
        Map.empty = Inl ''disk full''
   \<and> snd (run (stop_after_last_line\<lparr>mkdir_fails := Some ''disk full''\<rparr>) Map.empty) = Map.empty"
proof -
  have a: "create_temp_dir (os_env.truncate stop_after_last_line) Map.empty
     = Inr (''/tmp/chunmediaconv/session/job_1'',
            [''/tmp/chunmediaconv/session/job_1'' \<mapsto> Dir])"
    by (simp add: create_temp_dir_def os_env.truncate_def stop_after_last_line_def)
  have b: "\<not> remove_fails stop_after_last_line"
    by (simp add: stop_after_last_line_def)
  have c: "create_temp_dir
      (os_env.truncate (stop_after_last_line\<lparr>mkdir_fails := Some ''disk full''\<rparr>)) Map.empty
      = Inl ''disk full''"
    by (simp add: create_temp_dir_def os_env.truncate_def stop_after_last_line_def)
  from run_removes_temp_dir [of stop_after_last_line Map.empty
      "''/tmp/chunmediaconv/session/job_1''" "[''/tmp/chunmediaconv/session/job_1'' \<mapsto> Dir]"]
    run_removes_temp_dir [of "stop_after_last_line\<lparr>mkdir_fails := Some ''disk full''\<rparr>"
      Map.empty]
    a b c
  show ?thesis by simp
qed

section \<open>The scheduler\<close>












subsection \<open>Dequeuing and filling\<close>

lemma process_next_limit [simp]:
  "max_parallel_conversions (process_next_in_queue machine st) = max_parallel_conversions st"
  by (simp add: process_next_in_queue_def message_box_def Let_def
      split: list.splits prod.splits option.splits)



lemma fill_limit [simp]:
  "max_parallel_conversions (fill_conversion_slots machine st) = max_parallel_conversions st"
proof (induction machine st rule: fill_conversion_slots.induct)
  case (1 machine st)
  then show ?case
    by (subst fill_conversion_slots.simps) simp
qed



subsection \<open>Terminal events\<close>

lemma remove_finished_limit [simp]:
  "max_parallel_conversions (remove_finished st sender) = max_parallel_conversions st"
  by (simp add: remove_finished_def split: option.splits)






subsection \<open>Every event keeps the invariants\<close>






lemma handle_limit [simp]:
  "max_parallel_conversions (handle machine st ev) = max_parallel_conversions st"
  by (cases ev)
    (auto simp: add_files_def clear_queue_def start_conversion_def stop_conversion_def
      message_box_def on_conversion_progress_def on_conversion_finished_def Let_def
      split: option.splits)

lemma run_events_limit [simp]:
  "max_parallel_conversions (run_events machine st evs) = max_parallel_conversions st"
  unfolding run_events_def
  by (induction evs arbitrary: st) simp_all


subsection \<open>Aggregate progress\<close>






subsection \<open>A job whose worker cannot be created\<close>

text \<open>
  C10. When the next job is dequeued and the worker cannot be created (no hardware profile
  yet, and either no encoder binary is configured or detection reports failure), the job
  has left the queue, is not in the active set, has no progress entry, and no worker object
  exists that could ever emit a terminal event for it; the window only shows an error box.
\<close>

theorem failed_creation_loses_job:
  "conversion_queue st = inp # rest \<longrightarrow>
   hw_detector (conversion_engine st) = None \<longrightarrow>
   (config_ffmpeg_path (conversion_engine st) = [] \<or> best_acceleration machine = NONE) \<longrightarrow>
     fst (create_conversion_job machine (conversion_engine st) inp) = None
     \<and> conversion_queue (process_next_in_queue machine st) = rest
     \<and> active_conversions (process_next_in_queue machine st) = active_conversions st
     \<and> progress_values (process_next_in_queue machine st) = progress_values st
     \<and> workers_created (conversion_engine (process_next_in_queue machine st))
         = workers_created (conversion_engine st)
     \<and> message_boxes (process_next_in_queue machine st)
         = message_boxes st @ [''Failed to create conversion job'']"
  by (auto simp: process_next_in_queue_def create_conversion_job_def initialize_hardware_def
      detect_def new_worker_def message_box_def Let_def split: prod.splits option.splits)

theorem failed_creation_loses_job_witness:
  "conversion_queue (add_files (init_window ''ffmpeg'' 2) [''a.mkv'', ''b.mkv''])
     = ''a.mkv'' # [''b.mkv'']
   \<and> hw_detector (conversion_engine (add_files (init_window ''ffmpeg'' 2) [''a.mkv'', ''b.mkv'']))
     = None
   \<and> best_acceleration cpu_only_machine = NONE
   \<and> conversion_queue (process_next_in_queue cpu_only_machine
        (add_files (init_window ''ffmpeg'' 2) [''a.mkv'', ''b.mkv''])) = [''b.mkv'']
   \<and> active_conversions (process_next_in_queue cpu_only_machine
        (add_files (init_window ''ffmpeg'' 2) [''a.mkv'', ''b.mkv''])) = []
   \<and> message_boxes (process_next_in_queue cpu_only_machine
        (add_files (init_window ''ffmpeg'' 2) [''a.mkv'', ''b.mkv'']))
     = [''Failed to create conversion job'']"
  using failed_creation_loses_job [of "add_files (init_window ''ffmpeg'' 2) [''a.mkv'', ''b.mkv'']"
      "''a.mkv''" "[''b.mkv'']" cpu_only_machine]
  by (simp add: add_files_def init_window_def cpu_only_machine_def)

end
